theory Spec2Isabelle
  imports Complex_Main "HOL-Library.AList"
begin

section \<open>Conventions of the embedding\<close>

text \<open>
  The development embeds \<^verbatim>\<open>azure-reservation-analysis.py\<close>. Python strings are
  character lists and are taken to be ASCII: \<^verbatim>\<open>str.lower\<close> maps the letters A to Z and
  \<^verbatim>\<open>str.strip\<close> removes the ASCII white space of Python. Python floats are
  idealised as real numbers (no rounding error, no NaN, no infinity); a spreadsheet
  cell that pandas would read as NaN is \<open>None\<close>. An exception of the source is a
  value \<open>Inl e\<close> of the result.
\<close>

text \<open>
  \<open>NonFiniteFloat\<close> is no exception of Python: it marks the places where a Python
  float would be an infinity or a NaN, which the idealisation does not follow.
\<close>

datatype error = ValueError | KeyError | NonFiniteFloat

section \<open>Python strings\<close>

definition lower_char :: "char \<Rightarrow> char" where
  "lower_char c =
     (case map_of (zip ''ABCDEFGHIJKLMNOPQRSTUVWXYZ'' ''abcdefghijklmnopqrstuvwxyz'') c of
        None \<Rightarrow> c | Some d \<Rightarrow> d)"

text \<open>\<^verbatim>\<open>s.lower()\<close>\<close>

definition py_lower :: "string \<Rightarrow> string" where
  "py_lower s = map lower_char s"

definition is_space :: "char \<Rightarrow> bool" where
  "is_space c = (c \<in> set [CHR '' '', CHR 0x09, CHR 0x0A, CHR 0x0B, CHR 0x0C, CHR 0x0D,
                            CHR 0x1C, CHR 0x1D, CHR 0x1E, CHR 0x1F])"

text \<open>\<^verbatim>\<open>s.strip()\<close>\<close>

definition py_strip :: "string \<Rightarrow> string" where
  "py_strip s = rev (dropWhile is_space (rev (dropWhile is_space s)))"

text \<open>\<^verbatim>\<open>needle in s\<close>: \<open>needle\<close> is a contiguous part of \<open>s\<close>.\<close>

fun py_in :: "string \<Rightarrow> string \<Rightarrow> bool" where
  "py_in needle [] = (needle = [])"
| "py_in needle (c # cs) = (take (length needle) (c # cs) = needle \<or> py_in needle cs)"

text \<open>
  \<^verbatim>\<open>Series.str.contains(pat, case=False, na=False)\<close> for a pattern without regular
  expression operators, as all patterns of the source are.
\<close>

definition contains_ci :: "string \<Rightarrow> string \<Rightarrow> bool" where
  "contains_ci pat s = py_in (py_lower pat) (py_lower s)"

text \<open>\<^verbatim>\<open>s.startswith(p)\<close>\<close>

definition startswith :: "string \<Rightarrow> string \<Rightarrow> bool" where
  "startswith s p = (take (length p) s = p)"

text \<open>
  \<^verbatim>\<open>s.replace(old, new)\<close>: the occurrences of \<open>old\<close> are found from the left and do
  not overlap; an empty \<open>old\<close> matches before every character and at the end.
\<close>

fun py_replace :: "string \<Rightarrow> string \<Rightarrow> string \<Rightarrow> string" where
  "py_replace old new [] = (if old = [] then new else [])"
| "py_replace old new (c # cs) =
     (if old = [] then new @ c # py_replace old new cs
      else if take (length old) (c # cs) = old
           then new @ py_replace old new (drop (length old) (c # cs))
           else c # py_replace old new cs)"

section \<open>Section 1: matching advisor opportunities to running VMs\<close>

text \<open>One entry of \<^verbatim>\<open>vm_pool\<close> (lines 148 to 155).\<close>

record vm_entry =
  vm_Name :: string
  vm_Size :: string
  vm_OS :: string
  vm_OS_Name :: string
  vm_Region :: string
  vm_Tags :: string

text \<open>One row of the Advisor sheet; a missing Quantity cell is \<open>None\<close>.\<close>

record advisor_row =
  adv_Category :: string
  adv_Impact :: string
  adv_Description :: string
  adv_Name :: string
  adv_SKU :: string
  adv_Savings_Region :: string
  adv_Quantity :: "real option"
  adv_Annual_Savings :: real

text \<open>
  One element of \<^verbatim>\<open>recommendations\<close> (lines 173 to 189): the dictionary with its
  one-element list flattened into a record, so that equality of records is equality of
  the dictionaries.
\<close>

record recommendation =
  rec_Subscription :: string
  rec_VM_Name :: string
  rec_VM_Size :: string
  rec_SKU :: string
  rec_Recommendation :: string
  rec_Annual_Savings :: real
  rec_Impact :: string
  rec_Region :: string
  rec_OS :: string
  rec_OS_Name :: string
  rec_Tags :: string

type_synonym vm_pool = "(string \<times> string) \<rightharpoonup> vm_entry list"

text \<open>Lines 147 and 156: \<^verbatim>\<open>vm_pool.setdefault(key, []).append(vm_entry)\<close>, one entry per group.\<close>

definition pool_key :: "vm_entry \<Rightarrow> string \<times> string" where
  "pool_key vm = (py_strip (vm_Size vm), py_strip (py_lower (vm_Region vm)))"

definition pool_get :: "vm_pool \<Rightarrow> string \<times> string \<Rightarrow> vm_entry list" where
  "pool_get pool k = (case pool k of None \<Rightarrow> [] | Some vms \<Rightarrow> vms)"

fun build_vm_pool :: "vm_entry list \<Rightarrow> vm_pool \<Rightarrow> vm_pool" where
  "build_vm_pool [] pool = pool"
| "build_vm_pool (vm # vms) pool =
     build_vm_pool vms (pool(pool_key vm \<mapsto> pool_get pool (pool_key vm) @ [vm]))"

text \<open>Lines 112 to 116: the filter of the Advisor sheet.\<close>

definition advisor_filtered :: "advisor_row list \<Rightarrow> advisor_row list" where
  "advisor_filtered advisor_df =
     filter (\<lambda>adv. adv_Category adv = ''Cost'' \<and> adv_Impact adv = ''High''
                    \<and> contains_ci ''reserved instance'' (adv_Description adv)) advisor_df"

text \<open>\<^verbatim>\<open>int(adv["Quantity"])\<close>: truncation towards zero; NaN raises ValueError.\<close>

definition py_int :: "real option \<Rightarrow> error + int" where
  "py_int q = (case q of None \<Rightarrow> Inl ValueError
               | Some x \<Rightarrow> Inr (if 0 \<le> x then \<lfloor>x\<rfloor> else \<lceil>x\<rceil>))"

definition mk_recommendation :: "advisor_row \<Rightarrow> real \<Rightarrow> vm_entry \<Rightarrow> recommendation" where
  "mk_recommendation adv annual_savings vm =
     \<lparr> rec_Subscription = adv_Name adv,
       rec_VM_Name = vm_Name vm,
       rec_VM_Size = vm_Size vm,
       rec_SKU = adv_SKU adv,
       rec_Recommendation = adv_Description adv,
       rec_Annual_Savings = annual_savings,
       rec_Impact = adv_Impact adv,
       rec_Region = adv_Savings_Region adv,
       rec_OS = vm_OS vm,
       rec_OS_Name = vm_OS_Name vm,
       rec_Tags = vm_Tags vm \<rparr>"

text \<open>
  Lines 169 to 194, the loop over the pool of one opportunity. The state is the list
  \<^verbatim>\<open>recommendations\<close>, the set \<^verbatim>\<open>seen_vms\<close> and the counter \<^verbatim>\<open>selected\<close>; the
  \<^verbatim>\<open>break\<close> is tested after a VM has been claimed.
\<close>

fun claim_pool ::
  "advisor_row \<Rightarrow> int \<Rightarrow> real \<Rightarrow> vm_entry list \<Rightarrow> nat
     \<Rightarrow> recommendation list \<times> string set \<Rightarrow> recommendation list \<times> string set" where
  "claim_pool adv quantity annual_savings [] selected (recommendations, seen_vms) =
     (recommendations, seen_vms)"
| "claim_pool adv quantity annual_savings (vm # pool) selected (recommendations, seen_vms) =
     (if vm_Name vm \<in> seen_vms
      then claim_pool adv quantity annual_savings pool selected (recommendations, seen_vms)
      else
        let recommendations' = recommendations @ [mk_recommendation adv annual_savings vm];
            seen_vms' = insert (vm_Name vm) seen_vms;
            selected' = selected + 1
        in if int selected' \<ge> quantity then (recommendations', seen_vms')
           else claim_pool adv quantity annual_savings pool selected' (recommendations', seen_vms'))"

text \<open>Lines 162 to 166, the loop over the opportunities.\<close>

fun match_opportunities ::
  "vm_pool \<Rightarrow> advisor_row list \<Rightarrow> recommendation list \<times> string set
     \<Rightarrow> error + recommendation list \<times> string set" where
  "match_opportunities vm_pool [] st = Inr st"
| "match_opportunities vm_pool (adv # advs) st =
     (let key = (py_strip (adv_SKU adv), py_strip (py_lower (adv_Savings_Region adv)))
      in case py_int (adv_Quantity adv) of
           Inl e \<Rightarrow> Inl e
         | Inr quantity \<Rightarrow>
             match_opportunities vm_pool advs
               (claim_pool adv quantity (adv_Annual_Savings adv) (pool_get vm_pool key) 0 st))"

definition savings_threshold :: real where
  "savings_threshold = 10"

text \<open>
  Lines 202 to 211: the recommendations at or above the threshold and, when they are
  fewer than 20, the first of those above 1 that are not among them.
\<close>

definition select_impact_recs :: "recommendation list \<Rightarrow> recommendation list" where
  "select_impact_recs recommendations =
     (let impact_recs = filter (\<lambda>r. rec_Annual_Savings r \<ge> savings_threshold) recommendations
      in if length impact_recs < 20
         then impact_recs @
              take (20 - length impact_recs)
                (filter (\<lambda>r. rec_Annual_Savings r > 1 \<and> r \<notin> set impact_recs) recommendations)
         else impact_recs)"

text \<open>
  Lines 158 to 211 of \<^verbatim>\<open>generate_vm_recommendations\<close>: the sorted list of all
  recommendations and the list written to \<^verbatim>\<open>output.json\<close>. The sort of line 197 is
  stable and descending.
\<close>

definition generate_vm_recommendations ::
  "vm_pool \<Rightarrow> advisor_row list \<Rightarrow> error + recommendation list \<times> recommendation list" where
  "generate_vm_recommendations vm_pool advisor_df =
     (case match_opportunities vm_pool (advisor_filtered advisor_df) ([], {}) of
        Inl e \<Rightarrow> Inl e
      | Inr (recommendations, seen_vms) \<Rightarrow>
          let sorted_recs = sort_key (\<lambda>r. - rec_Annual_Savings r) recommendations
          in Inr (sorted_recs, select_impact_recs sorted_recs))"

section \<open>Numbers and their formatted form\<close>

text \<open>\<^verbatim>\<open>round(x)\<close> of Python: to the nearest integer, a tie to the even one.\<close>

definition py_round :: "real \<Rightarrow> int" where
  "py_round x =
     (let f = \<lfloor>x\<rfloor>; d = x - of_int f
      in if d < 1 / 2 then f else if d > 1 / 2 then f + 1 else if even f then f else f + 1)"

text \<open>\<^verbatim>\<open>round(x, 2)\<close>\<close>

definition py_round2 :: "real \<Rightarrow> real" where
  "py_round2 x = of_int (py_round (x * 100)) / 100"

definition digit_char :: "int \<Rightarrow> char" where
  "digit_char d =
     (case map_of (zip [0, 1, 2, 3, 4, 5, 6, 7, 8, 9] ''0123456789'') d of
        None \<Rightarrow> CHR ''0'' | Some c \<Rightarrow> c)"

text \<open>
  The decimal digits of a number that is not negative; the first argument says whether
  one digit is left, so that an equation applies only once that is known.
\<close>

function digits_aux :: "bool \<Rightarrow> int \<Rightarrow> string" where
  "digits_aux True n = [digit_char n]"
| "digits_aux False n = digits_aux (n div 10 < 10) (n div 10) @ [digit_char (n mod 10)]"
  by pat_completeness auto
termination
  by (relation "measure (\<lambda>(b, n). if b then 0 else Suc (nat n))") auto

definition int_digits :: "int \<Rightarrow> string" where
  "int_digits n = digits_aux (n < 10) n"

text \<open>A comma before every group of three digits, counted from the right.\<close>

fun group3_rev :: "string \<Rightarrow> string" where
  "group3_rev (a # b # c # d # s) = a # b # c # CHR '','' # group3_rev (d # s)"
| "group3_rev s = s"

definition group3 :: "string \<Rightarrow> string" where
  "group3 s = rev (group3_rev (rev s))"

text \<open>
  The format \<^verbatim>\<open>f"${x:,.2f}"\<close>: a dollar sign, the sign of a negative number, the
  integer part in groups of three digits, and two decimals.
\<close>

definition fmt_money :: "real \<Rightarrow> string" where
  "fmt_money x =
     (let cents = py_round (\<bar>x\<bar> * 100)
      in ''$'' @ (if x < 0 then ''-'' else []) @ group3 (int_digits (cents div 100)) @ ''.''
         @ [digit_char (cents mod 100 div 10), digit_char (cents mod 10)])"

text \<open>
  \<^verbatim>\<open>float(s)\<close> on a string: white space around it, a sign, then \<^verbatim>\<open>inf\<close>,
  \<^verbatim>\<open>infinity\<close> or \<^verbatim>\<open>nan\<close> in any case, or a decimal number with an optional fraction
  and exponent whose digits may be grouped by single underscores. Anything else raises
  ValueError.
\<close>

definition is_digit :: "char \<Rightarrow> bool" where
  "is_digit c = (c \<in> set ''0123456789'')"

definition digit_val :: "char \<Rightarrow> int" where
  "digit_val c =
     (case map_of (zip ''0123456789'' [0, 1, 2, 3, 4, 5, 6, 7, 8, 9]) c of
        None \<Rightarrow> 0 | Some d \<Rightarrow> d)"

definition digits_val :: "string \<Rightarrow> int" where
  "digits_val ds = foldl (\<lambda>a c. 10 * a + digit_val c) 0 ds"

fun take_digits :: "string \<Rightarrow> string \<times> string" where
  "take_digits [] = ([], [])"
| "take_digits (c # cs) =
     (if is_digit c then (case take_digits cs of (ds, r) \<Rightarrow> (c # ds, r))
      else if c = CHR ''_'' \<and> (case cs of [] \<Rightarrow> False | d # _ \<Rightarrow> is_digit d)
           then take_digits cs
           else ([], c # cs))"

definition digitpart :: "string \<Rightarrow> (string \<times> string) option" where
  "digitpart s = (case s of [] \<Rightarrow> None
                  | c # cs \<Rightarrow> if is_digit c then Some (take_digits s) else None)"

definition float_exponent :: "string \<Rightarrow> string \<Rightarrow> string \<Rightarrow> error + real" where
  "float_exponent ip fp r =
     (let m = of_int (digits_val ip) + of_int (digits_val fp) / 10 ^ length fp
      in case r of
           [] \<Rightarrow> Inr m
         | c # r1 \<Rightarrow>
             if c = CHR ''e'' \<or> c = CHR ''E'' then
               (case (case r1 of [] \<Rightarrow> (False, r1)
                      | s # r2 \<Rightarrow> if s = CHR ''-'' then (True, r2)
                                  else if s = CHR ''+'' then (False, r2) else (False, r1)) of
                  (neg, r2) \<Rightarrow>
                    (case digitpart r2 of
                       Some (ds, []) \<Rightarrow>
                         Inr (if neg then m / 10 ^ nat (digits_val ds) else m * 10 ^ nat (digits_val ds))
                     | _ \<Rightarrow> Inl ValueError))
             else Inl ValueError)"

definition float_number :: "string \<Rightarrow> error + real" where
  "float_number s =
     (if py_lower s \<in> set [''inf'', ''infinity'', ''nan''] then Inl NonFiniteFloat
      else case digitpart s of
             Some (ip, r) \<Rightarrow>
               (case r of
                  [] \<Rightarrow> float_exponent ip [] r
                | c # r2 \<Rightarrow>
                    if c = CHR ''.'' then
                      (case digitpart r2 of
                         Some (fp, r3) \<Rightarrow> float_exponent ip fp r3
                       | None \<Rightarrow> float_exponent ip [] r2)
                    else float_exponent ip [] r)
           | None \<Rightarrow>
               (case s of
                  [] \<Rightarrow> Inl ValueError
                | c # r2 \<Rightarrow>
                    if c = CHR ''.'' then
                      (case digitpart r2 of
                         Some (fp, r3) \<Rightarrow> float_exponent [] fp r3
                       | None \<Rightarrow> Inl ValueError)
                    else Inl ValueError))"

definition py_float :: "string \<Rightarrow> error + real" where
  "py_float s =
     (case py_strip s of
        [] \<Rightarrow> Inl ValueError
      | c # cs \<Rightarrow>
          if c = CHR ''-'' then (case float_number cs of Inl e \<Rightarrow> Inl e | Inr v \<Rightarrow> Inr (- v))
          else if c = CHR ''+'' then float_number cs
          else float_number (c # cs))"

section \<open>Section 2: pricing rows from the retail price list\<close>

text \<open>
  One item of the price list. A field is \<open>None\<close> when the item has no such key;
  \<^verbatim>\<open>p.get(key, default)\<close> then yields the default.
\<close>

record price_item =
  pi_type :: "string option"
  pi_productName :: "string option"
  pi_meterName :: "string option"
  pi_unitPrice :: "real option"
  pi_reservationTerm :: "string option"

text \<open>\<^verbatim>\<open>p.get(key, "")\<close>\<close>

definition get_str :: "string option \<Rightarrow> string" where
  "get_str v = (case v of None \<Rightarrow> [] | Some s \<Rightarrow> s)"

text \<open>\<^verbatim>\<open>p.get("unitPrice", 0)\<close>\<close>

definition get_unitPrice :: "price_item \<Rightarrow> real" where
  "get_unitPrice p = (case pi_unitPrice p of None \<Rightarrow> 0 | Some x \<Rightarrow> x)"

text \<open>Lines 284 to 300.\<close>

definition matches_os :: "price_item \<Rightarrow> string \<Rightarrow> bool" where
  "matches_os item os_filter =
     (let name = py_lower (get_str (pi_productName item));
          meter = py_lower (get_str (pi_meterName item))
      in if py_in ''spot'' meter \<or> py_in ''low priority'' meter then False
         else if os_filter = [] then True
         else let os_filter = py_lower os_filter
              in if os_filter = ''windows''
                 then py_in ''windows'' name \<or> py_in ''windows'' meter
                 else if os_filter = ''linux''
                 then \<not> py_in ''windows'' name \<and> \<not> py_in ''windows'' meter
                 else False)"

text \<open>One element of \<^verbatim>\<open>inputs.json\<close>.\<close>

record input_row =
  in_Region :: string
  in_SKU :: string
  in_OS :: string
  in_OS_Name :: string
  in_VM_Name :: string
  in_Tags :: string

text \<open>
  One row of a report table; the last field is the column
  \<^verbatim>\<open>Estimated monthly cost\<close>, \<open>None\<close> where pandas holds a missing value.
\<close>

record report_row =
  row_Service_category :: string
  row_Service_type :: string
  row_VM_Name :: string
  row_Tags :: string
  row_Region :: string
  row_OS :: string
  row_OS_Name :: string
  row_SKU :: string
  row_Description :: string
  row_cost :: "string option"

text \<open>Lines 318 to 324: \<^verbatim>\<open>sanitized_sku\<close> and \<^verbatim>\<open>sanitized_sku_region\<close>.\<close>

definition sanitized_sku :: "string \<Rightarrow> string \<Rightarrow> string" where
  "sanitized_sku os_type sku =
     (if py_lower os_type = ''windows''
      then py_replace ''_'' ''-'' (py_lower (py_replace ''Standard_'' [] sku))
      else py_replace ''_'' ''-'' (py_lower sku))"

definition sanitized_sku_region :: "string \<Rightarrow> string \<Rightarrow> string \<Rightarrow> string" where
  "sanitized_sku_region os_type sku region = sanitized_sku os_type sku @ ''_'' @ py_lower region"

text \<open>Lines 340 to 342: the pay-as-you-go items.\<close>

definition select_payg :: "string \<Rightarrow> price_item list \<Rightarrow> price_item list" where
  "select_payg os_type prices =
     (let payg = filter (\<lambda>p. pi_type p = Some ''Consumption'' \<and> matches_os p os_type) prices
      in if py_lower os_type = ''linux'' then take 1 (sort_key get_unitPrice payg) else payg)"

text \<open>
  Lines 372 to 377: \<^verbatim>\<open>by_term\<close>, a dictionary in insertion order, keeps for every term
  the first item of the highest unit price.
\<close>

fun by_term_loop :: "price_item list \<Rightarrow> (string \<times> price_item) list \<Rightarrow> (string \<times> price_item) list" where
  "by_term_loop [] by_term = by_term"
| "by_term_loop (p # ps) by_term =
     (let term = get_str (pi_reservationTerm p)
      in by_term_loop ps
           (if (case map_of by_term term of
                  None \<Rightarrow> True
                | Some q \<Rightarrow> get_unitPrice p > get_unitPrice q)
            then AList.update term p by_term else by_term))"

text \<open>Lines 362 to 379: the reservation items.\<close>

definition select_reservations :: "string \<Rightarrow> price_item list \<Rightarrow> price_item list" where
  "select_reservations os_type prices =
     (if py_lower os_type = ''windows'' then
        let reservations =
              filter (\<lambda>p. pi_type p = Some ''Reservation''
                         \<and> \<not> list_ex (\<lambda>term. py_in term
                               (py_lower (get_str (pi_productName p) @ get_str (pi_meterName p))))
                             [''ahb'', ''hybrid'']) prices;
            reservations =
              (if reservations = [] then filter (\<lambda>p. pi_type p = Some ''Reservation'') prices
               else reservations)
        in map snd (by_term_loop reservations [])
      else filter (\<lambda>p. pi_type p = Some ''Reservation'' \<and> matches_os p os_type) prices)"

text \<open>Lines 344 to 359: the row of a pay-as-you-go item.\<close>

definition payg_row :: "input_row \<Rightarrow> price_item \<Rightarrow> report_row" where
  "payg_row row p =
     (let meter_name = get_str (pi_meterName p);
          price = get_unitPrice p;
          monthly_cost = py_round2 (price * 730)
      in \<lparr> row_Service_category = ''Compute'',
           row_Service_type = ''Virtual Machines'',
           row_VM_Name = in_VM_Name row,
           row_Tags = in_Tags row,
           row_Region = in_Region row,
           row_OS = in_OS row,
           row_OS_Name = in_OS_Name row,
           row_SKU = sanitized_sku (in_OS row) (in_SKU row),
           row_Description = ''1 '' @ meter_name @ '' ('' @ in_SKU row @ ''), '' @ in_OS row
                             @ '', Pay-as-you-go'',
           row_cost = Some (fmt_money monthly_cost) \<rparr>)"

text \<open>Lines 381 to 399: the row of a reservation item.\<close>

definition reservation_months :: "string \<Rightarrow> real" where
  "reservation_months term = (if py_in ''1'' term then 12 else 36)"

definition reservation_row :: "input_row \<Rightarrow> price_item \<Rightarrow> report_row" where
  "reservation_row row p =
     (let meter_name = get_str (pi_meterName p);
          term = get_str (pi_reservationTerm p);
          total_price = get_unitPrice p;
          months = reservation_months term;
          monthly_cost = py_round2 (total_price / months)
      in \<lparr> row_Service_category = ''Compute'',
           row_Service_type = ''Virtual Machines'',
           row_VM_Name = in_VM_Name row,
           row_Tags = in_Tags row,
           row_Region = in_Region row,
           row_OS = in_OS row,
           row_OS_Name = in_OS_Name row,
           row_SKU = sanitized_sku (in_OS row) (in_SKU row),
           row_Description = ''1 '' @ meter_name @ '' ('' @ in_SKU row @ '') ('' @ term @ ''), ''
                             @ in_OS row @ '' Reservation'',
           row_cost = Some (fmt_money monthly_cost) \<rparr>)"

text \<open>The rows of one input row, given the price list of its SKU and region.\<close>

definition price_rows :: "input_row \<Rightarrow> price_item list \<Rightarrow> report_row list" where
  "price_rows row prices =
     map (payg_row row) (select_payg (in_OS row) prices)
     @ map (reservation_row row) (select_reservations (in_OS row) prices)"

text \<open>
  Lines 309 to 401, the loop of \<^verbatim>\<open>build_azure_pricing\<close>. The retail price service is the
  function \<open>get_prices\<close>; the state is \<^verbatim>\<open>estimate_rows\<close>, \<^verbatim>\<open>price_cache\<close> and
  \<^verbatim>\<open>unique_skus_regions\<close>.
\<close>

fun build_azure_pricing_loop ::
  "(string \<Rightarrow> string \<Rightarrow> price_item list) \<Rightarrow> input_row list
     \<Rightarrow> report_row list \<times> ((string \<times> string) \<rightharpoonup> price_item list) \<times> string set
     \<Rightarrow> report_row list \<times> ((string \<times> string) \<rightharpoonup> price_item list) \<times> string set" where
  "build_azure_pricing_loop get_prices [] st = st"
| "build_azure_pricing_loop get_prices (row # inputs) (estimate_rows, price_cache, unique_skus_regions) =
     (let region = in_Region row; sku = in_SKU row; os_type = in_OS row;
          unique_skus_regions' =
            (if py_lower os_type = ''windows''
             then insert (sanitized_sku_region os_type sku region) unique_skus_regions
             else unique_skus_regions);
          cache_key = (sku, region);
          prices = (case price_cache cache_key of
                      Some ps \<Rightarrow> ps
                    | None \<Rightarrow> get_prices sku region);
          price_cache' = (case price_cache cache_key of
                            Some ps \<Rightarrow> price_cache
                          | None \<Rightarrow> price_cache(cache_key \<mapsto> prices))
      in if prices = []
         then build_azure_pricing_loop get_prices inputs
                (estimate_rows, price_cache', unique_skus_regions')
         else build_azure_pricing_loop get_prices inputs
                (estimate_rows @ price_rows row prices, price_cache', unique_skus_regions'))"

definition build_azure_pricing ::
  "(string \<Rightarrow> string \<Rightarrow> price_item list) \<Rightarrow> input_row list \<Rightarrow> report_row list \<times> string set" where
  "build_azure_pricing get_prices inputs =
     (case build_azure_pricing_loop get_prices inputs ([], Map.empty, {}) of
        (estimate_rows, price_cache, unique_skus_regions) \<Rightarrow> (estimate_rows, unique_skus_regions))"

section \<open>Section 2: the report tables\<close>

text \<open>\<^verbatim>\<open>s.replace('$', '').replace(',', '')\<close>\<close>

definition strip_money :: "string \<Rightarrow> string" where
  "strip_money s = py_replace '','' [] (py_replace ''$'' [] s)"

text \<open>\<^verbatim>\<open>str(cell)\<close> of a cost cell.\<close>

definition cell_str :: "string option \<Rightarrow> string" where
  "cell_str c = (case c of None \<Rightarrow> ''None'' | Some s \<Rightarrow> s)"

text \<open>
  Lines 461 to 468: \<^verbatim>\<open>vm_pricing\<close>, a dictionary in insertion order. Here a cost that
  does not parse counts as 0 (\<^verbatim>\<open>try\<close> and \<^verbatim>\<open>except\<close>).
\<close>

fun vm_pricing_loop :: "report_row list \<Rightarrow> (string \<times> real) list \<Rightarrow> error + (string \<times> real) list" where
  "vm_pricing_loop [] vm_pricing = Inr vm_pricing"
| "vm_pricing_loop (row # rows) vm_pricing =
     (if py_in ''Pay-as-you-go'' (row_Description row) then
        (case py_float (strip_money (cell_str (row_cost row))) of
           Inr v \<Rightarrow> vm_pricing_loop rows (AList.update (row_VM_Name row) v vm_pricing)
         | Inl e \<Rightarrow>
             if e = NonFiniteFloat then Inl NonFiniteFloat
             else vm_pricing_loop rows (AList.update (row_VM_Name row) 0 vm_pricing))
      else vm_pricing_loop rows vm_pricing)"

definition blank_row :: report_row where
  "blank_row =
     \<lparr> row_Service_category = [], row_Service_type = [], row_VM_Name = [], row_Tags = [],
       row_Region = [], row_OS = [], row_OS_Name = [], row_SKU = [], row_Description = [],
       row_cost = Some [] \<rparr>"

text \<open>Lines 471 and 472: the VMs by descending pay-as-you-go cost, ties in their first order.\<close>

definition sorted_vms :: "(string \<times> real) list \<Rightarrow> (string \<times> real) list" where
  "sorted_vms vm_pricing = sort_key (\<lambda>x. - snd x) vm_pricing"

text \<open>Lines 475 to 481: the rows of each VM, then a blank row.\<close>

definition sorted_rows :: "report_row list \<Rightarrow> string list \<Rightarrow> report_row list" where
  "sorted_rows df sorted_vm_names =
     concat (map (\<lambda>vm_name. filter (\<lambda>row. row_VM_Name row = vm_name) df @ [blank_row])
                 sorted_vm_names)"

text \<open>Line 485: \<^verbatim>\<open>.replace('', None)\<close> on the cost column.\<close>

definition replace_blank_cost :: "report_row \<Rightarrow> report_row" where
  "replace_blank_cost row = (if row_cost row = Some [] then row\<lparr>row_cost := None\<rparr> else row)"

text \<open>Lines 488 to 491: \<^verbatim>\<open>cost_numeric\<close> of the as-quoted table; no \<^verbatim>\<open>try\<close> here.\<close>

definition cost_numeric :: "report_row \<Rightarrow> error + real" where
  "cost_numeric row =
     (case row_cost row of
        None \<Rightarrow> Inr 0
      | Some s \<Rightarrow> if s \<noteq> [] then py_float (strip_money s) else Inr 0)"

text \<open>Lines 544 to 547: \<^verbatim>\<open>cost_numeric\<close> of the reconciled table.\<close>

definition cost_numeric_savings :: "report_row \<Rightarrow> error + real" where
  "cost_numeric_savings row =
     (case row_cost row of
        None \<Rightarrow> Inr 0
      | Some s \<Rightarrow> if s \<noteq> [] \<and> \<not> py_in ''Total'' (row_Service_category row)
                  then py_float (strip_money s) else Inr 0)"

text \<open>\<^verbatim>\<open>DataFrame.apply(f, axis=1)\<close>: row by row, the first exception ends it.\<close>

fun apply_rows :: "(report_row \<Rightarrow> error + real) \<Rightarrow> report_row list \<Rightarrow> error + real list" where
  "apply_rows f [] = Inr []"
| "apply_rows f (row # rows) =
     (case f row of
        Inl e \<Rightarrow> Inl e
      | Inr v \<Rightarrow> (case apply_rows f rows of Inl e \<Rightarrow> Inl e | Inr vs \<Rightarrow> Inr (v # vs)))"

text \<open>The sum of \<^verbatim>\<open>cost_numeric\<close> over the rows selected by a mask.\<close>

definition masked_sum :: "(report_row \<Rightarrow> bool) \<Rightarrow> report_row list \<Rightarrow> real list \<Rightarrow> real" where
  "masked_sum selected rows cost =
     sum_list (map snd (filter (\<lambda>x. selected (fst x)) (zip rows cost)))"

definition text_row :: "string \<Rightarrow> string \<Rightarrow> string \<Rightarrow> report_row" where
  "text_row category description cost =
     blank_row\<lparr> row_Service_category := category, row_Description := description,
                row_cost := Some cost \<rparr>"

text \<open>Lines 498 to 508.\<close>

definition totals_rows :: "real \<Rightarrow> real \<Rightarrow> real \<Rightarrow> report_row list" where
  "totals_rows total_payg total_1yr total_3yr =
     [text_row ''Total'' ''Total Monthly Pay-as-you-go'' (fmt_money total_payg),
      text_row [] ''Total 1 Year Reservations (Billed monthly)'' (fmt_money total_1yr),
      text_row [] ''Total 3 Year Reservations (Billed monthly)'' (fmt_money total_3yr)]"

text \<open>Lines 516 to 541: the price of the secondary source, for a row of a Windows VM.\<close>

definition set_cost :: "string option \<Rightarrow> report_row \<Rightarrow> report_row" where
  "set_cost cost row =
     (case cost of
        None \<Rightarrow> row
      | Some c \<Rightarrow> row\<lparr>row_cost := Some (if \<not> startswith c ''$'' then ''$'' @ c else c)\<rparr>)"

definition secondary_price :: "(string \<rightharpoonup> (string \<rightharpoonup> string)) \<Rightarrow> report_row \<Rightarrow> report_row" where
  "secondary_price windows_pricing_data row =
     (let sku = py_lower (row_SKU row);
          region = py_lower (row_Region row);
          os = py_lower (row_OS row)
      in if sku = [] \<or> region = [] \<or> os = [] \<or> os \<noteq> ''windows'' then row
         else case windows_pricing_data (sku @ ''_'' @ region) of
                None \<Rightarrow> row
              | Some pricing_info \<Rightarrow>
                  let description = row_Description row
                  in if py_in ''On Demand'' description \<or> py_in ''Pay-as-you-go'' description
                     then set_cost (pricing_info ''On Demand'') row
                     else if py_in ''1 Year'' description
                     then set_cost (pricing_info ''1-Year Reserved'') row
                     else if py_in ''3 Years'' description
                     then set_cost (pricing_info ''3-Year Reserved'') row
                     else row)"

text \<open>Lines 563 to 569: the three total rows of the reconciled table are rewritten.\<close>

definition update_total :: "string \<Rightarrow> real \<Rightarrow> report_row list \<Rightarrow> report_row list" where
  "update_total description total_value rows =
     map (\<lambda>row. if row_Description row = description
                 then row\<lparr>row_cost := Some (fmt_money total_value)\<rparr> else row) rows"

text \<open>Lines 572 to 606.\<close>

definition additional_rows :: "real \<Rightarrow> real \<Rightarrow> real \<Rightarrow> report_row list" where
  "additional_rows total_payg_savings total_1yr_savings total_3yr_savings =
     (let annual_payg = total_payg_savings * 12;
          annual_1yr = total_1yr_savings * 12;
          annual_3yr = total_3yr_savings * 12;
          savings_1yr = annual_payg - annual_1yr;
          savings_3yr = annual_payg - annual_3yr;
          total_36_months = total_payg_savings * 36;
          total_3yr_cost = total_3yr_savings * 36
      in [blank_row,
          text_row [] ''Total Yearly Pay-as-you-go'' (fmt_money annual_payg),
          text_row [] ''Total 1 Year Reservations (Annual cost)'' (fmt_money annual_1yr),
          text_row [] ''Annual Savings (1 Year Reservations)'' (fmt_money savings_1yr),
          blank_row,
          text_row [] ''Total 36 Months Pay-as-you-go'' (fmt_money total_36_months),
          text_row [] ''Total 3 Year Reservations (3 Year cost)'' (fmt_money total_3yr_cost),
          text_row [] ''Total 3 Year Reservations (annual cost)'' (fmt_money annual_3yr),
          blank_row,
          text_row [] ''3 Year Reservations (Annual Savings)'' (fmt_money savings_3yr)])"

text \<open>Lines 549 to 551: the three monthly totals, recomputed on the reconciled table.\<close>

definition total_payg_savings :: "report_row list \<Rightarrow> real list \<Rightarrow> real" where
  "total_payg_savings df_savings cost =
     masked_sum (\<lambda>row. contains_ci ''Pay-as-you-go'' (row_Description row)) df_savings cost"

definition total_1yr_savings :: "report_row list \<Rightarrow> real list \<Rightarrow> real" where
  "total_1yr_savings df_savings cost =
     masked_sum (\<lambda>row. contains_ci ''1 Year'' (row_Description row)
                      \<and> \<not> contains_ci ''Total'' (row_Description row)) df_savings cost"

definition total_3yr_savings :: "report_row list \<Rightarrow> real list \<Rightarrow> real" where
  "total_3yr_savings df_savings cost =
     masked_sum (\<lambda>row. contains_ci ''3 Years'' (row_Description row)
                      \<and> \<not> contains_ci ''Total'' (row_Description row)) df_savings cost"

text \<open>
  Lines 455 to 620, \<^verbatim>\<open>build_final_dataframes\<close>: the as-quoted table, the reconciled
  table and the ranked table. A table built from no rows has no columns, so that line
  485 raises KeyError.
\<close>

definition build_final_dataframes ::
  "report_row list \<Rightarrow> (string \<rightharpoonup> (string \<rightharpoonup> string))
     \<Rightarrow> error + report_row list \<times> report_row list \<times> (string \<times> string) list" where
  "build_final_dataframes estimate_rows windows_pricing_data =
     (case vm_pricing_loop estimate_rows [] of
        Inl e \<Rightarrow> Inl e
      | Inr vm_pricing \<Rightarrow>
          let sorted_vm_names = map fst (sorted_vms vm_pricing);
              rows = sorted_rows estimate_rows sorted_vm_names
          in if rows = [] then Inl KeyError
             else
               let df_sorted = map replace_blank_cost rows
               in case apply_rows cost_numeric df_sorted of
                    Inl e \<Rightarrow> Inl e
                  | Inr cost \<Rightarrow>
                      let total_payg = masked_sum (\<lambda>row. contains_ci ''Pay-as-you-go'' (row_Description row)) df_sorted cost;
                          total_1yr = masked_sum (\<lambda>row. contains_ci ''1 Year'' (row_Description row)) df_sorted cost;
                          total_3yr = masked_sum (\<lambda>row. contains_ci ''3 Years'' (row_Description row)) df_sorted cost;
                          df_final = df_sorted @ totals_rows total_payg total_1yr total_3yr;
                          df_savings = map (secondary_price windows_pricing_data) df_final
                      in case apply_rows cost_numeric_savings df_savings of
                           Inl e \<Rightarrow> Inl e
                         | Inr cost_savings \<Rightarrow>
                             let tp = total_payg_savings df_savings cost_savings;
                                 t1 = total_1yr_savings df_savings cost_savings;
                                 t3 = total_3yr_savings df_savings cost_savings;
                                 df_savings =
                                   update_total ''Total 3 Year Reservations (Billed monthly)'' t3
                                     (update_total ''Total 1 Year Reservations (Billed monthly)'' t1
                                       (update_total ''Total Monthly Pay-as-you-go'' tp df_savings));
                                 df_ranked = map (\<lambda>x. (fst x, fmt_money (snd x))) (sorted_vms vm_pricing)
                             in Inr (df_final, df_savings @ additional_rows tp t1 t3, df_ranked))"

section \<open>Concrete inputs\<close>

text \<open>Running VMs of one size in one region, and Advisor rows for that size and region.\<close>

definition ex_vm :: "string \<Rightarrow> vm_entry" where
  "ex_vm n = \<lparr> vm_Name = n, vm_Size = ''Standard_D2s_v3'', vm_OS = ''Windows'',
              vm_OS_Name = ''Windows Server 2019'', vm_Region = ''EastUS'', vm_Tags = ''Unknown'' \<rparr>"

definition ex_adv :: "real \<Rightarrow> real \<Rightarrow> advisor_row" where
  "ex_adv q s = \<lparr> adv_Category = ''Cost'', adv_Impact = ''High'',
      adv_Description = ''Consider virtual machine reserved instance to save over your on-demand costs'',
      adv_Name = ''sub1'', adv_SKU = ''Standard_D2s_v3'', adv_Savings_Region = ''eastus'',
      adv_Quantity = Some q, adv_Annual_Savings = s \<rparr>"

definition ex_pool :: vm_pool where
  "ex_pool = build_vm_pool [ex_vm ''A'', ex_vm ''B'', ex_vm ''C''] Map.empty"

definition ex_rec :: "string \<Rightarrow> real \<Rightarrow> recommendation" where
  "ex_rec n s = mk_recommendation (ex_adv 1 s) s (ex_vm n)"

definition ex_rec_of :: "advisor_row \<Rightarrow> string \<Rightarrow> recommendation" where
  "ex_rec_of adv n = mk_recommendation adv (adv_Annual_Savings adv) (ex_vm n)"

text \<open>A price list, input rows and prices of the secondary source.\<close>

definition ex_item :: "string \<Rightarrow> string \<Rightarrow> string \<Rightarrow> real \<Rightarrow> string option \<Rightarrow> price_item" where
  "ex_item ty product meter price term =
     \<lparr> pi_type = Some ty, pi_productName = Some product, pi_meterName = Some meter,
       pi_unitPrice = Some price, pi_reservationTerm = term \<rparr>"

definition ex_prices :: "price_item list" where
  "ex_prices =
     [ex_item ''Consumption'' ''Virtual Machines DSv3 Series Windows'' ''D2s v3'' (188 / 1000) None,
      ex_item ''Consumption'' ''Virtual Machines DSv3 Series Windows'' ''D2s v3 Spot'' (4 / 100) None,
      ex_item ''Consumption'' ''Virtual Machines DSv3 Series'' ''D2s v3'' (96 / 1000) None,
      ex_item ''Reservation'' ''Virtual Machines DSv3 Series'' ''D2s v3'' 574 (Some ''1 Year''),
      ex_item ''Reservation'' ''Virtual Machines DSv3 Series'' ''D2s v3'' 1110 (Some ''3 Years'')]"

definition ex_prices_no_payg :: "price_item list" where
  "ex_prices_no_payg =
     [ex_item ''Consumption'' ''Virtual Machines Ev3 Series'' ''E4 v3'' (252 / 1000) None,
      ex_item ''Reservation'' ''Virtual Machines Ev3 Series'' ''E4 v3'' 1300 (Some ''1 Year'')]"

definition ex_get_prices :: "string \<Rightarrow> string \<Rightarrow> price_item list" where
  "ex_get_prices sku region =
     (if sku = ''Standard_D2s_v3'' \<and> region = ''eastus'' then ex_prices
      else if sku = ''Standard_E4_v3'' \<and> region = ''eastus'' then ex_prices_no_payg
      else [])"

definition ex_input :: "string \<Rightarrow> string \<Rightarrow> string \<Rightarrow> input_row" where
  "ex_input vm os sku =
     \<lparr> in_Region = ''eastus'', in_SKU = sku, in_OS = os, in_OS_Name = ''Server'',
       in_VM_Name = vm, in_Tags = ''Unknown'' \<rparr>"

definition ex_secondary :: "string \<Rightarrow> string \<rightharpoonup> (string \<rightharpoonup> string)" where
  "ex_secondary on_demand =
     [''d2s-v3_eastus'' \<mapsto>
        [''On Demand'' \<mapsto> on_demand, ''1-Year Reserved'' \<mapsto> ''$100.00'',
         ''3-Year Reserved'' \<mapsto> ''70'']]"

definition ex_spot_product :: price_item where
  "ex_spot_product =
     ex_item ''Consumption'' ''Virtual Machines DSv3 Series Windows Spot'' ''D2s v3'' (4 / 100) None"

definition ex_spot_reservation :: price_item where
  "ex_spot_reservation =
     ex_item ''Reservation'' ''Virtual Machines DSv3 Series'' ''D2s v3 Spot'' 500 (Some ''1 Year'')"

text \<open>The rows of one Windows VM and the tables expected for them.\<close>

definition ex_rows :: "report_row list" where
  "ex_rows = price_rows (ex_input ''vmA'' ''Windows'' ''Standard_D2s_v3'') ex_prices"

definition ex_df_final :: "report_row list" where
  "ex_df_final =
     map replace_blank_cost (ex_rows @ [blank_row])
     @ totals_rows (13724 / 100) (4783 / 100) (3083 / 100)"

definition ex_df_savings :: "report_row list" where
  "ex_df_savings =
     map (\<lambda>x. (fst x)\<lparr>row_cost := snd x\<rparr>)
       (zip ex_df_final
          [Some ''$150.00'', Some ''$100.00'', Some ''$70'', None,
           Some ''$150.00'', Some ''$100.00'', Some ''$70.00''])
     @ additional_rows 150 100 70"

section \<open>Properties of the matcher\<close>

subsection \<open>No VM is claimed twice\<close>

lemma claim_pool_names:
  "claim_pool adv q s pool sel (recs, seen) = (recs', seen') \<Longrightarrow>
   distinct (map rec_VM_Name recs) \<Longrightarrow> set (map rec_VM_Name recs) \<subseteq> seen \<Longrightarrow>
   distinct (map rec_VM_Name recs') \<and> set (map rec_VM_Name recs') \<subseteq> seen'"
proof (induction pool arbitrary: sel recs seen)
  case Nil
  then show ?case by simp
next
  case (Cons vm pool)
  show ?case
  proof (cases "vm_Name vm \<in> seen")
    case True
    with Cons.prems Cons.IH [of sel recs seen] show ?thesis by simp
  next
    case False
    let ?recs = "recs @ [mk_recommendation adv s vm]"
    let ?seen = "insert (vm_Name vm) seen"
    have d: "distinct (map rec_VM_Name ?recs)"
      using Cons.prems(2,3) False by (auto simp: mk_recommendation_def)
    have s: "set (map rec_VM_Name ?recs) \<subseteq> ?seen"
      using Cons.prems(3) by (auto simp: mk_recommendation_def)
    show ?thesis
    proof (cases "int (sel + 1) \<ge> q")
      case True
      with False Cons.prems(1) have "recs' = ?recs" "seen' = ?seen" by (simp_all add: Let_def)
      with d s show ?thesis by simp
    next
      case stop: False
      with False Cons.prems(1)
      have "claim_pool adv q s pool (sel + 1) (?recs, ?seen) = (recs', seen')"
        by (simp add: Let_def)
      from Cons.IH [OF this d s] show ?thesis .
    qed
  qed
qed

lemma match_opportunities_names:
  "match_opportunities pool advs (recs, seen) = Inr (recs', seen') \<Longrightarrow>
   distinct (map rec_VM_Name recs) \<Longrightarrow> set (map rec_VM_Name recs) \<subseteq> seen \<Longrightarrow>
   distinct (map rec_VM_Name recs')"
proof (induction advs arbitrary: recs seen)
  case Nil
  then show ?case by simp
next
  case (Cons adv advs)
  from Cons.prems(1) obtain q where q: "py_int (adv_Quantity adv) = Inr q"
    by (auto simp: Let_def split: sum.splits)
  define k where "k = (py_strip (adv_SKU adv), py_strip (py_lower (adv_Savings_Region adv)))"
  obtain recs1 seen1 where
    c: "claim_pool adv q (adv_Annual_Savings adv) (pool_get pool k) 0 (recs, seen) = (recs1, seen1)"
    by (cases "claim_pool adv q (adv_Annual_Savings adv) (pool_get pool k) 0 (recs, seen)")
  from Cons.prems(1) q c have m: "match_opportunities pool advs (recs1, seen1) = Inr (recs', seen')"
    by (simp add: Let_def k_def)
  from claim_pool_names [OF c Cons.prems(2,3)] Cons.IH [OF m] show ?case by blast
qed

lemma distinct_names_sort_key:
  "distinct (map rec_VM_Name (sort_key k recs)) = distinct (map rec_VM_Name recs)"
  by (simp add: distinct_map)

lemma distinct_names_select:
  assumes "distinct (map rec_VM_Name recs)"
  shows "distinct (map rec_VM_Name (select_impact_recs recs))"
proof -
  let ?A = "filter (\<lambda>r. rec_Annual_Savings r \<ge> savings_threshold) recs"
  let ?B = "filter (\<lambda>r. rec_Annual_Savings r > 1 \<and> r \<notin> set ?A) recs"
  from assms have dr: "distinct recs" and inj: "inj_on rec_VM_Name (set recs)"
    by (simp_all add: distinct_map)
  have "distinct (?A @ take (20 - length ?A) ?B)"
    using dr by (auto dest: in_set_takeD)
  moreover have "set (?A @ take (20 - length ?A) ?B) \<subseteq> set recs"
    by (auto dest: in_set_takeD)
  ultimately have "distinct (map rec_VM_Name (?A @ take (20 - length ?A) ?B))"
    using inj unfolding distinct_map by (meson inj_on_subset)
  moreover have "distinct (map rec_VM_Name ?A)"
    using assms by (simp add: distinct_map_filter)
  ultimately show ?thesis
    by (simp add: select_impact_recs_def Let_def)
qed


text \<open>
  Claim C1. Whenever \<^verbatim>\<open>generate_vm_recommendations\<close> returns, no VM name occurs twice
  in the list of all recommendations, whatever the pool and however many opportunities
  share a key; the same holds of the list selected for \<^verbatim>\<open>output.json\<close>.
\<close>

theorem no_vm_recommended_twice:
  assumes "generate_vm_recommendations vm_pool advisor_df = Inr (recommendations, impact_recs)"
  shows "distinct (map rec_VM_Name recommendations) \<and> distinct (map rec_VM_Name impact_recs)"
proof -
  from assms obtain recs seen where
    m: "match_opportunities vm_pool (advisor_filtered advisor_df) ([], {}) = Inr (recs, seen)"
    and r: "recommendations = sort_key (\<lambda>r. - rec_Annual_Savings r) recs"
    and i: "impact_recs = select_impact_recs recommendations"
    by (auto simp: generate_vm_recommendations_def Let_def split: sum.splits prod.splits)
  from match_opportunities_names [OF m] have "distinct (map rec_VM_Name recs)" by simp
  then have "distinct (map rec_VM_Name recommendations)"
    by (simp add: r distinct_names_sort_key)
  with i distinct_names_select show ?thesis by blast
qed

theorem no_vm_recommended_twice_witness:
  "generate_vm_recommendations ex_pool [ex_adv 2 50, ex_adv 2 300] =
     Inr ([ex_rec_of (ex_adv 2 300) ''C'', ex_rec_of (ex_adv 2 50) ''A'', ex_rec_of (ex_adv 2 50) ''B''],
          [ex_rec_of (ex_adv 2 300) ''C'', ex_rec_of (ex_adv 2 50) ''A'', ex_rec_of (ex_adv 2 50) ''B''])
   \<and> distinct (map rec_VM_Name
        [ex_rec_of (ex_adv 2 300) ''C'', ex_rec_of (ex_adv 2 50) ''A'', ex_rec_of (ex_adv 2 50) ''B''])"
proof -
  have run: "generate_vm_recommendations ex_pool [ex_adv 2 50, ex_adv 2 300] =
     Inr ([ex_rec_of (ex_adv 2 300) ''C'', ex_rec_of (ex_adv 2 50) ''A'', ex_rec_of (ex_adv 2 50) ''B''],
          [ex_rec_of (ex_adv 2 300) ''C'', ex_rec_of (ex_adv 2 50) ''A'', ex_rec_of (ex_adv 2 50) ''B''])"
    by code_simp
  from no_vm_recommended_twice [OF run] run show ?thesis by blast
qed

subsection \<open>How many VMs one opportunity claims\<close>

text \<open>
  From a state with \<open>selected\<close> VMs claimed so far, the loop over the pool claims one
  VM for each unclaimed name, but at most \<open>quantity - selected\<close> and, since the
  quantity is tested only after a claim, at least one when one is unclaimed.
\<close>

lemma claim_pool_count:
  "finite seen \<Longrightarrow>
   length (fst (claim_pool adv q s pool sel (recs, seen))) =
   length recs + min (nat (max 1 (q - int sel))) (card (set (map vm_Name pool) - seen))"
proof (induction pool arbitrary: sel recs seen)
  case Nil
  then show ?case by simp
next
  case (Cons vm pool)
  show ?case
  proof (cases "vm_Name vm \<in> seen")
    case True
    then have "set (map vm_Name (vm # pool)) - seen = set (map vm_Name pool) - seen" by auto
    with True Cons show ?thesis by simp
  next
    case False
    let ?seen = "insert (vm_Name vm) seen"
    have split: "set (map vm_Name (vm # pool)) - seen = insert (vm_Name vm) (set (map vm_Name pool) - ?seen)"
      using False by auto
    have card: "card (set (map vm_Name (vm # pool)) - seen) = Suc (card (set (map vm_Name pool) - ?seen))"
      unfolding split by (rule card_insert_disjoint) auto
    show ?thesis
    proof (cases "int (sel + 1) \<ge> q")
      case True
      then have "nat (max 1 (q - int sel)) = 1" by simp
      with True False card show ?thesis by (simp add: Let_def)
    next
      case stop: False
      have fin: "finite ?seen" using Cons.prems by simp
      have ih: "length (fst (claim_pool adv q s pool (sel + 1) (recs @ [mk_recommendation adv s vm], ?seen))) =
            length (recs @ [mk_recommendation adv s vm]) +
            min (nat (max 1 (q - int (sel + 1)))) (card (set (map vm_Name pool) - ?seen))"
        by (rule Cons.IH [OF fin])
      from stop have n: "nat (max 1 (q - int sel)) = Suc (nat (max 1 (q - int (sel + 1))))" by simp
      have eq: "claim_pool adv q s (vm # pool) sel (recs, seen) =
            claim_pool adv q s pool (sel + 1) (recs @ [mk_recommendation adv s vm], ?seen)"
        using stop False by (simp add: Let_def)
      show ?thesis
        by (simp only: eq ih n card) simp
    qed
  qed
qed


text \<open>
  Claim C2. An eligible opportunity with quantity 0 and a pool of three unclaimed VMs:
  the matcher creates one recommendation from it, for the first VM of the pool.
\<close>

theorem zero_quantity_claims_one_vm:
  "generate_vm_recommendations ex_pool [ex_adv 0 50] =
     Inr ([ex_rec_of (ex_adv 0 50) ''A''], [ex_rec_of (ex_adv 0 50) ''A''])"
  by code_simp

subsection \<open>The size of the selected list\<close>

lemma count_split:
  "length (filter (\<lambda>r. rec_Annual_Savings r > 1) recs) =
   length (filter (\<lambda>r. rec_Annual_Savings r \<ge> savings_threshold) recs) +
   length (filter (\<lambda>r. rec_Annual_Savings r > 1 \<and> \<not> rec_Annual_Savings r \<ge> savings_threshold) recs)"
  by (induction recs) (auto simp: savings_threshold_def)

lemma backfill_filter:
  "filter (\<lambda>r. rec_Annual_Savings r > 1
               \<and> r \<notin> set (filter (\<lambda>r. rec_Annual_Savings r \<ge> savings_threshold) recs)) recs =
   filter (\<lambda>r. rec_Annual_Savings r > 1 \<and> \<not> rec_Annual_Savings r \<ge> savings_threshold) recs"
  by (rule filter_cong) auto


text \<open>
  Claim C3. For every list of recommendations, the list selected for output has
  max (number with savings at least 10) (min 20 (number with savings above 1)) elements.
\<close>

theorem impact_recs_count:
  "length (select_impact_recs recs) =
   max (length (filter (\<lambda>r. rec_Annual_Savings r \<ge> 10) recs))
       (min 20 (length (filter (\<lambda>r. rec_Annual_Savings r > 1) recs)))"
proof -
  let ?A = "filter (\<lambda>r. rec_Annual_Savings r \<ge> savings_threshold) recs"
  let ?B = "filter (\<lambda>r. rec_Annual_Savings r > 1 \<and> \<not> rec_Annual_Savings r \<ge> savings_threshold) recs"
  have sel: "select_impact_recs recs =
    (if length ?A < 20 then ?A @ take (20 - length ?A) ?B else ?A)"
    unfolding select_impact_recs_def Let_def backfill_filter ..
  have "length (select_impact_recs recs) =
        max (length ?A) (min 20 (length ?A + length ?B))"
    unfolding sel by (auto simp: min_def max_def)
  then show ?thesis
    unfolding count_split [of recs] by (simp add: savings_threshold_def)
qed


theorem impact_recs_count_witness:
  "length (select_impact_recs
     [ex_rec ''A'' 300, ex_rec ''B'' 50, ex_rec ''C'' 50, ex_rec ''D'' 5, ex_rec ''E'' (1 / 2)]) = 4"
  unfolding impact_recs_count by (simp add: ex_rec_def mk_recommendation_def)

subsection \<open>The selected list is sorted\<close>









section \<open>Properties of the price classifier\<close>

subsection \<open>Spot and low-priority items\<close>

lemma matches_os_spot:
  "py_in ''spot'' (py_lower (get_str (pi_meterName p)))
     \<or> py_in ''low priority'' (py_lower (get_str (pi_meterName p)))
   \<Longrightarrow> \<not> matches_os p os_filter"
  by (simp add: matches_os_def Let_def)

lemma select_payg_subset:
  "set (select_payg os_type prices)
     \<subseteq> {p \<in> set prices. pi_type p = Some ''Consumption'' \<and> matches_os p os_type}"
  by (auto simp: select_payg_def Let_def dest: in_set_takeD)

lemma select_reservations_other:
  "py_lower os_type \<noteq> ''windows'' \<Longrightarrow>
   select_reservations os_type prices =
     filter (\<lambda>p. pi_type p = Some ''Reservation'' \<and> matches_os p os_type) prices"
  by (simp add: select_reservations_def)

text \<open>
  Claim C4, as amended. An item whose meter name mentions spot or low priority, in any
  letter case, is rejected by \<^verbatim>\<open>matches_os\<close> for every OS filter; it is therefore
  never among the pay-as-you-go items, whatever the OS, and never among the reservation
  items of an input whose OS is not Windows.
\<close>

theorem spot_meter_excluded:
  assumes "py_in ''spot'' (py_lower (get_str (pi_meterName p)))
           \<or> py_in ''low priority'' (py_lower (get_str (pi_meterName p)))"
  shows "\<not> matches_os p os_filter
       \<and> p \<notin> set (select_payg os_type prices)
       \<and> (py_lower os_type \<noteq> ''windows'' \<longrightarrow> p \<notin> set (select_reservations os_type prices))"
proof -
  have m: "\<not> matches_os p f" for f
    using assms by (rule matches_os_spot)
  have "p \<notin> set (select_payg os_type prices)"
    using m select_payg_subset [of os_type prices] by blast
  moreover have "p \<notin> set (select_reservations os_type prices)" if "py_lower os_type \<noteq> ''windows''"
    using m that by (simp add: select_reservations_other)
  ultimately show ?thesis using m by blast
qed

theorem spot_meter_excluded_witness:
  "(py_in ''spot'' (py_lower (get_str (pi_meterName (ex_prices ! 1))))
      \<or> py_in ''low priority'' (py_lower (get_str (pi_meterName (ex_prices ! 1)))))
   \<and> \<not> matches_os (ex_prices ! 1) ''Windows''
   \<and> ex_prices ! 1 \<notin> set (select_payg ''Windows'' ex_prices)
   \<and> ex_prices ! 1 \<notin> set (select_reservations ''Linux'' ex_prices)"
proof -
  have h: "py_in ''spot'' (py_lower (get_str (pi_meterName (ex_prices ! 1))))
      \<or> py_in ''low priority'' (py_lower (get_str (pi_meterName (ex_prices ! 1))))"
    by code_simp
  have l: "py_lower ''Linux'' \<noteq> ''windows''"
    by code_simp
  from spot_meter_excluded [OF h, of "''Windows''" "''Windows''" ex_prices]
       spot_meter_excluded [OF h, of "''Windows''" "''Linux''" ex_prices] h l
  show ?thesis by blast
qed

text \<open>
  The claim as stated fails twice on a Windows input: an item that mentions spot in its
  product name only passes \<^verbatim>\<open>matches_os\<close>, and a reservation item whose meter name
  mentions spot is kept, since the reservations of a Windows input are selected without
  \<^verbatim>\<open>matches_os\<close>. Both get a row.
\<close>

theorem spot_item_emitted:
  "py_in ''spot'' (py_lower (get_str (pi_productName ex_spot_product)))
   \<and> ex_spot_product \<in> set (select_payg ''Windows'' [ex_spot_product, ex_spot_reservation])
   \<and> py_in ''spot'' (py_lower (get_str (pi_meterName ex_spot_reservation)))
   \<and> ex_spot_reservation \<in> set (select_reservations ''Windows'' [ex_spot_product, ex_spot_reservation])
   \<and> map row_cost (price_rows (ex_input ''vmA'' ''Windows'' ''Standard_D2s_v3'')
                       [ex_spot_product, ex_spot_reservation]) = [Some ''$29.20'', Some ''$41.67'']"
  by code_simp

subsection \<open>The normalised SKU\<close>

lemma py_replace_underscore:
  "py_replace ''_'' ''-'' s = map (\<lambda>c. if c = CHR ''_'' then CHR ''-'' else c) s"
  by (induction s) simp_all

lemma py_replace_prefix:
  "py_replace ''Standard_'' [] (''Standard_'' @ rest) = py_replace ''Standard_'' [] rest"
  by simp

lemma py_lower_standard:
  "py_lower (''Standard_'' @ rest) = ''standard_'' @ py_lower rest"
  by (simp add: py_lower_def lower_char_def)

text \<open>
  Claim C5, as amended. For an input row whose OS is windows, in any letter case, the
  normalised SKU is the SKU with every \<^verbatim>\<open>Standard_\<close> removed, in lower case, with
  hyphens for underscores, so that a leading \<^verbatim>\<open>Standard_\<close> is stripped. For any other
  OS the SKU is only put in lower case with hyphens for underscores, and a leading
  \<^verbatim>\<open>Standard_\<close> stays as \<^verbatim>\<open>standard-\<close>. In both cases no underscore is left, the
  result is the SKU of the report rows, and the key of the secondary source is this SKU,
  an underscore and the region in lower case.
\<close>

theorem sanitized_sku_by_os:
  "(py_lower os_type = ''windows'' \<longrightarrow>
      sanitized_sku os_type sku = py_replace ''_'' ''-'' (py_lower (py_replace ''Standard_'' [] sku))
      \<and> sanitized_sku os_type (''Standard_'' @ rest) = sanitized_sku os_type rest)
   \<and> (py_lower os_type \<noteq> ''windows'' \<longrightarrow>
      sanitized_sku os_type sku = py_replace ''_'' ''-'' (py_lower sku)
      \<and> sanitized_sku os_type (''Standard_'' @ rest) = ''standard-'' @ sanitized_sku os_type rest)
   \<and> CHR ''_'' \<notin> set (sanitized_sku os_type sku)
   \<and> row_SKU (payg_row row p) = sanitized_sku (in_OS row) (in_SKU row)
   \<and> row_SKU (reservation_row row p) = sanitized_sku (in_OS row) (in_SKU row)
   \<and> sanitized_sku_region os_type sku region = sanitized_sku os_type sku @ ''_'' @ py_lower region"
proof -
  have a: "sanitized_sku os_type (''Standard_'' @ rest) = sanitized_sku os_type rest"
    if "py_lower os_type = ''windows''"
    using that unfolding sanitized_sku_def py_replace_prefix by simp
  have b: "sanitized_sku os_type (''Standard_'' @ rest) = ''standard-'' @ sanitized_sku os_type rest"
    if "py_lower os_type \<noteq> ''windows''"
    using that unfolding sanitized_sku_def py_lower_standard py_replace_underscore by simp
  have c: "CHR ''_'' \<notin> set (sanitized_sku os_type sku)"
    by (auto simp: sanitized_sku_def py_replace_underscore)
  have d: "row_SKU (payg_row row p) = sanitized_sku (in_OS row) (in_SKU row)"
    by (simp add: payg_row_def Let_def)
  have e: "row_SKU (reservation_row row p) = sanitized_sku (in_OS row) (in_SKU row)"
    by (simp add: reservation_row_def Let_def)
  show ?thesis
    using a b c d e by (simp add: sanitized_sku_def sanitized_sku_region_def)
qed

theorem sanitized_sku_by_os_witness:
  "sanitized_sku ''Windows'' (''Standard_'' @ ''D2s_v3'') = ''d2s-v3''
   \<and> sanitized_sku ''Linux'' (''Standard_'' @ ''D2s_v3'') = ''standard-'' @ ''d2s-v3''"
proof -
  have w: "py_lower ''Windows'' = ''windows''" and l: "py_lower ''Linux'' \<noteq> ''windows''"
    by code_simp+
  have r: "sanitized_sku ''Windows'' ''D2s_v3'' = ''d2s-v3''"
          "sanitized_sku ''Linux'' ''D2s_v3'' = ''d2s-v3''"
    by code_simp+
  have a: "sanitized_sku ''Windows'' (''Standard_'' @ ''D2s_v3'') = sanitized_sku ''Windows'' ''D2s_v3''"
    using sanitized_sku_by_os [of "''Windows''" _ "''D2s_v3''"] w by blast
  have b: "sanitized_sku ''Linux'' (''Standard_'' @ ''D2s_v3'')
           = ''standard-'' @ sanitized_sku ''Linux'' ''D2s_v3''"
    using sanitized_sku_by_os [of "''Linux''" _ "''D2s_v3''"] l by blast
  show ?thesis
    unfolding a b r by (rule conjI; rule refl)
qed

text \<open>The claim as stated fails for a Linux row: its report rows keep the prefix.\<close>

theorem linux_sku_keeps_prefix:
  "sanitized_sku ''Linux'' ''Standard_D2s_v3'' = ''standard-d2s-v3''
   \<and> map row_SKU (price_rows (ex_input ''vmL'' ''Linux'' ''Standard_D2s_v3'') ex_prices)
       = [''standard-d2s-v3'', ''standard-d2s-v3'', ''standard-d2s-v3'']"
  by code_simp

subsection \<open>Monthly cost\<close>








section \<open>Properties of the report tables\<close>

subsection \<open>Parsing the cost column\<close>

text \<open>
  The cost column is parsed after the dollar sign and the commas are removed. Where
  \<^verbatim>\<open>vm_pricing\<close> is built, a cost that does not parse counts as 0; in the two
  \<^verbatim>\<open>cost_numeric\<close> columns it raises, and the exception of one row ends the column.
\<close>

lemma cost_numeric_formatted:
  "cost_numeric (text_row [] [] ''$1,234.56'') = Inr (123456 / 100)"
  by code_simp

lemma cost_numeric_unparsable:
  "cost_numeric (text_row [] [] ''$N/A'') = Inl ValueError"
  by code_simp

lemma vm_pricing_unparsable:
  "vm_pricing_loop [text_row [] ''1 D2s v3, Windows, Pay-as-you-go'' ''$N/A''] [] = Inr [([], 0)]"
  by code_simp

lemma apply_rows_raises:
  "row \<in> set rows \<Longrightarrow> f row = Inl e \<Longrightarrow> \<exists>e'. apply_rows f rows = Inl e'"
  by (induction rows) (auto split: sum.splits)

lemma apply_rows_length:
  "apply_rows f rows = Inr vs \<Longrightarrow> length vs = length rows"
  by (induction rows arbitrary: vs) (auto split: sum.splits)

text \<open>
  Claim C6. A Windows VM priced from the retail list, and a secondary source whose
  on-demand price for its SKU and region is the text \<^verbatim>\<open>N/A\<close>: the reconciled table gets
  the cell \<^verbatim>\<open>$N/A\<close>, and \<^verbatim>\<open>build_final_dataframes\<close> raises ValueError instead of counting
  the cell as zero.
\<close>

theorem unparsable_secondary_price_raises:
  "build_final_dataframes
     (fst (build_azure_pricing ex_get_prices [ex_input ''vmA'' ''Windows'' ''Standard_D2s_v3'']))
     (ex_secondary ''N/A'') = Inl ValueError"
  by code_simp

subsection \<open>The savings rows\<close>

lemma length_update_total [simp]: "length (update_total d t rows) = length rows"
  by (simp add: update_total_def)

lemma build_final_dataframes_Inr:
  assumes "build_final_dataframes estimate_rows wpd = Inr (df_final, df_savings, df_ranked)"
  obtains cost where
    "apply_rows cost_numeric_savings (map (secondary_price wpd) df_final) = Inr cost"
    "df_savings =
       update_total ''Total 3 Year Reservations (Billed monthly)''
           (total_3yr_savings (map (secondary_price wpd) df_final) cost)
         (update_total ''Total 1 Year Reservations (Billed monthly)''
           (total_1yr_savings (map (secondary_price wpd) df_final) cost)
           (update_total ''Total Monthly Pay-as-you-go''
             (total_payg_savings (map (secondary_price wpd) df_final) cost)
             (map (secondary_price wpd) df_final)))
       @ additional_rows (total_payg_savings (map (secondary_price wpd) df_final) cost)
           (total_1yr_savings (map (secondary_price wpd) df_final) cost)
           (total_3yr_savings (map (secondary_price wpd) df_final) cost)"
  using assms
  by (auto simp: build_final_dataframes_def Let_def split: sum.splits if_splits)

text \<open>
  Claim C8. Whenever \<^verbatim>\<open>build_final_dataframes\<close> returns, the reconciled table ends with
  ten rows after those of the as-quoted table; among them the yearly pay-as-you-go row,
  the annual 1-year row and the annual 3-year row hold 12 times the monthly totals
  recomputed on the reconciled costs, the row of the annual savings of 1-year
  reservations holds the yearly pay-as-you-go value minus the annual 1-year value, and
  the row of the annual savings of 3-year reservations holds the yearly pay-as-you-go
  value minus the annual 3-year value.
\<close>

theorem annual_savings_rows:
  assumes "build_final_dataframes estimate_rows wpd = Inr (df_final, df_savings, df_ranked)"
  shows "\<exists>cost. apply_rows cost_numeric_savings (map (secondary_price wpd) df_final) = Inr cost \<and>
     (let reconciled = map (secondary_price wpd) df_final;
          annual_payg = total_payg_savings reconciled cost * 12;
          annual_1yr = total_1yr_savings reconciled cost * 12;
          annual_3yr = total_3yr_savings reconciled cost * 12;
          n = length df_final
      in length df_savings = n + 10
       \<and> df_savings ! (n + 1) = text_row [] ''Total Yearly Pay-as-you-go'' (fmt_money annual_payg)
       \<and> df_savings ! (n + 2)
           = text_row [] ''Total 1 Year Reservations (Annual cost)'' (fmt_money annual_1yr)
       \<and> df_savings ! (n + 3)
           = text_row [] ''Annual Savings (1 Year Reservations)'' (fmt_money (annual_payg - annual_1yr))
       \<and> df_savings ! (n + 7)
           = text_row [] ''Total 3 Year Reservations (annual cost)'' (fmt_money annual_3yr)
       \<and> df_savings ! (n + 9)
           = text_row [] ''3 Year Reservations (Annual Savings)'' (fmt_money (annual_payg - annual_3yr)))"
proof -
  from assms obtain cost where
    c: "apply_rows cost_numeric_savings (map (secondary_price wpd) df_final) = Inr cost" and
    s: "df_savings =
       update_total ''Total 3 Year Reservations (Billed monthly)''
           (total_3yr_savings (map (secondary_price wpd) df_final) cost)
         (update_total ''Total 1 Year Reservations (Billed monthly)''
           (total_1yr_savings (map (secondary_price wpd) df_final) cost)
           (update_total ''Total Monthly Pay-as-you-go''
             (total_payg_savings (map (secondary_price wpd) df_final) cost)
             (map (secondary_price wpd) df_final)))
       @ additional_rows (total_payg_savings (map (secondary_price wpd) df_final) cost)
           (total_1yr_savings (map (secondary_price wpd) df_final) cost)
           (total_3yr_savings (map (secondary_price wpd) df_final) cost)"
    by (rule build_final_dataframes_Inr)
  let ?add = "additional_rows (total_payg_savings (map (secondary_price wpd) df_final) cost)
           (total_1yr_savings (map (secondary_price wpd) df_final) cost)
           (total_3yr_savings (map (secondary_price wpd) df_final) cost)"
  have len: "length df_savings = length df_final + 10"
    unfolding s by (simp add: additional_rows_def Let_def)
  have nth: "df_savings ! (length df_final + k) = ?add ! k" for k
    unfolding s by (simp add: nth_append)
  have n1: "df_savings ! (length df_final + 1) = ?add ! 1"
   and n2: "df_savings ! (length df_final + 2) = ?add ! 2"
   and n3: "df_savings ! (length df_final + 3) = ?add ! 3"
   and n7: "df_savings ! (length df_final + 7) = ?add ! 7"
   and n9: "df_savings ! (length df_final + 9) = ?add ! 9"
    by (rule nth)+
  have a: "?add ! 1 = text_row [] ''Total Yearly Pay-as-you-go''
              (fmt_money (total_payg_savings (map (secondary_price wpd) df_final) cost * 12))"
          "?add ! 2 = text_row [] ''Total 1 Year Reservations (Annual cost)''
              (fmt_money (total_1yr_savings (map (secondary_price wpd) df_final) cost * 12))"
          "?add ! 3 = text_row [] ''Annual Savings (1 Year Reservations)''
              (fmt_money (total_payg_savings (map (secondary_price wpd) df_final) cost * 12
                          - total_1yr_savings (map (secondary_price wpd) df_final) cost * 12))"
          "?add ! 7 = text_row [] ''Total 3 Year Reservations (annual cost)''
              (fmt_money (total_3yr_savings (map (secondary_price wpd) df_final) cost * 12))"
          "?add ! 9 = text_row [] ''3 Year Reservations (Annual Savings)''
              (fmt_money (total_payg_savings (map (secondary_price wpd) df_final) cost * 12
                          - total_3yr_savings (map (secondary_price wpd) df_final) cost * 12))"
    by (simp_all add: additional_rows_def Let_def)
  show ?thesis
    unfolding Let_def using c len n1 n2 n3 n7 n9 a by (intro exI [of _ cost]) (simp only:)
qed

theorem annual_savings_rows_witness:
  "build_final_dataframes ex_rows (ex_secondary ''$150.00'')
     = Inr (ex_df_final, ex_df_savings, [(''vmA'', ''$137.24'')])
   \<and> ex_df_savings ! 8 = text_row [] ''Total Yearly Pay-as-you-go'' ''$1,800.00''
   \<and> ex_df_savings ! 9 = text_row [] ''Total 1 Year Reservations (Annual cost)'' ''$1,200.00''
   \<and> ex_df_savings ! 10 = text_row [] ''Annual Savings (1 Year Reservations)'' ''$600.00''
   \<and> ex_df_savings ! 14 = text_row [] ''Total 3 Year Reservations (annual cost)'' ''$840.00''
   \<and> ex_df_savings ! 16 = text_row [] ''3 Year Reservations (Annual Savings)'' ''$960.00''"
proof -
  let ?W = "ex_secondary ''$150.00''"
  let ?cost = "[150, 100, 70, 0, 0, 4783 / 100, 3083 / 100] :: real list"
  have run: "build_final_dataframes ex_rows ?W
     = Inr (ex_df_final, ex_df_savings, [(''vmA'', ''$137.24'')])"
    by code_simp
  have len: "length ex_df_final = 7"
    by code_simp
  have cv: "apply_rows cost_numeric_savings (map (secondary_price ?W) ex_df_final) = Inr ?cost"
    by code_simp
  have t: "total_payg_savings (map (secondary_price ?W) ex_df_final) ?cost = 150"
          "total_1yr_savings (map (secondary_price ?W) ex_df_final) ?cost = 100"
          "total_3yr_savings (map (secondary_price ?W) ex_df_final) ?cost = 70"
    by code_simp+
  have f: "fmt_money 1800 = ''$1,800.00''" "fmt_money 1200 = ''$1,200.00''"
          "fmt_money 600 = ''$600.00''" "fmt_money 840 = ''$840.00''" "fmt_money 960 = ''$960.00''"
    by code_simp+
  from annual_savings_rows [OF run] obtain cost where
    c: "apply_rows cost_numeric_savings (map (secondary_price ?W) ex_df_final) = Inr cost" and
    r: "let reconciled = map (secondary_price ?W) ex_df_final;
          annual_payg = total_payg_savings reconciled cost * 12;
          annual_1yr = total_1yr_savings reconciled cost * 12;
          annual_3yr = total_3yr_savings reconciled cost * 12;
          n = length ex_df_final
      in length ex_df_savings = n + 10
       \<and> ex_df_savings ! (n + 1) = text_row [] ''Total Yearly Pay-as-you-go'' (fmt_money annual_payg)
       \<and> ex_df_savings ! (n + 2)
           = text_row [] ''Total 1 Year Reservations (Annual cost)'' (fmt_money annual_1yr)
       \<and> ex_df_savings ! (n + 3)
           = text_row [] ''Annual Savings (1 Year Reservations)'' (fmt_money (annual_payg - annual_1yr))
       \<and> ex_df_savings ! (n + 7)
           = text_row [] ''Total 3 Year Reservations (annual cost)'' (fmt_money annual_3yr)
       \<and> ex_df_savings ! (n + 9)
           = text_row [] ''3 Year Reservations (Annual Savings)'' (fmt_money (annual_payg - annual_3yr))"
    by blast
  from c cv have "cost = ?cost" by simp
  with r t f len run show ?thesis
    by (simp add: Let_def)
qed

subsection \<open>The VMs of the as-quoted table\<close>

text \<open>
  The table lists the VMs of \<^verbatim>\<open>vm_pricing\<close>, by descending cost: these are the VMs
  with a pay-as-you-go row, and no other VM has a row in the table.
\<close>

lemma vm_pricing_loop_keys:
  "vm_pricing_loop rows vp = Inr vp' \<Longrightarrow>
   fst ` set vp' =
     fst ` set vp \<union> {row_VM_Name r | r. r \<in> set rows \<and> py_in ''Pay-as-you-go'' (row_Description r)}"
proof (induction rows arbitrary: vp)
  case Nil
  then show ?case by simp
next
  case (Cons row rows)
  show ?case
  proof (cases "py_in ''Pay-as-you-go'' (row_Description row)")
    case False
    with Cons.prems have "vm_pricing_loop rows vp = Inr vp'" by simp
    from Cons.IH [OF this] False show ?thesis by auto
  next
    case True
    with Cons.prems obtain v where "vm_pricing_loop rows (AList.update (row_VM_Name row) v vp) = Inr vp'"
      by (auto split: sum.splits if_splits)
    from Cons.IH [OF this] True show ?thesis
      by (auto simp: dom_update)
  qed
qed

lemma sorted_vms_descending:
  "sorted_wrt (\<lambda>a b. a \<ge> b) (map snd (sorted_vms vm_pricing))"
proof -
  have "sorted (map (\<lambda>x. - snd x) (sort_key (\<lambda>x. - snd x) vm_pricing))"
    by (rule sorted_sort_key)
  then show ?thesis
    by (simp add: sorted_vms_def sorted_wrt_map)
qed

lemma sorted_rows_names:
  "r \<in> set (sorted_rows df names) \<Longrightarrow> row_VM_Name r \<noteq> [] \<Longrightarrow>
   r \<in> set df \<and> row_VM_Name r \<in> set names"
  by (auto simp: sorted_rows_def blank_row_def split: if_splits)

lemma as_quoted_vm_has_payg_row:
  assumes "build_final_dataframes estimate_rows wpd = Inr (df_final, df_savings, df_ranked)"
    and "r \<in> set df_final" and "row_VM_Name r \<noteq> []"
  shows "\<exists>r' \<in> set estimate_rows.
           row_VM_Name r' = row_VM_Name r \<and> py_in ''Pay-as-you-go'' (row_Description r')"
proof -
  from assms(1) obtain vp a b c where
    vp: "vm_pricing_loop estimate_rows [] = Inr vp" and
    f: "df_final = map replace_blank_cost (sorted_rows estimate_rows (map fst (sorted_vms vp)))
                   @ totals_rows a b c"
    by (auto simp: build_final_dataframes_def Let_def split: sum.splits if_splits)
  from assms(2,3) f obtain r0 where
    r0: "r0 \<in> set (sorted_rows estimate_rows (map fst (sorted_vms vp)))" "r = replace_blank_cost r0"
    by (auto simp: totals_rows_def text_row_def blank_row_def)
  then have n: "row_VM_Name r0 = row_VM_Name r"
    by (simp add: replace_blank_cost_def)
  with r0 assms(3) sorted_rows_names [of r0 estimate_rows "map fst (sorted_vms vp)"]
  have "row_VM_Name r \<in> fst ` set vp"
    by (auto simp: sorted_vms_def)
  with vm_pricing_loop_keys [OF vp] show ?thesis by auto
qed

text \<open>
  Claim C9. Two Windows VMs priced from the retail list, where the list of the second
  has a reservation item but no Windows consumption item: the second VM has a
  reservation row among the estimate rows, and the as-quoted table holds the three rows
  of the first VM, a blank row and the three total rows only.
\<close>

theorem vm_without_payg_row_dropped:
  "''vmB'' \<in> set (map row_VM_Name (fst (build_azure_pricing ex_get_prices
        [ex_input ''vmA'' ''Windows'' ''Standard_D2s_v3'', ex_input ''vmB'' ''Windows'' ''Standard_E4_v3''])))
   \<and> (case build_final_dataframes
          (fst (build_azure_pricing ex_get_prices
             [ex_input ''vmA'' ''Windows'' ''Standard_D2s_v3'', ex_input ''vmB'' ''Windows'' ''Standard_E4_v3'']))
          Map.empty of
        Inl e \<Rightarrow> False
      | Inr (df_final, df_savings, df_ranked) \<Rightarrow>
          map row_VM_Name df_final = [''vmA'', ''vmA'', ''vmA'', [], [], [], []])"
  by code_simp


end
